theory Spec2Isabelle
  imports Main
begin

section \<open>Messages\<close>

text \<open>
  The notebook \<^verbatim>\<open>examples/chatbots/information-gather-prompting.ipynb\<close> works on
  lists of chat messages. A message has a class (\<^verbatim>\<open>HumanMessage\<close>, an assistant's
  message, \<^verbatim>\<open>SystemMessage\<close>), a text content and the dictionary
  \<^verbatim>\<open>additional_kwargs\<close>, whose values are JSON-like Python values. The field
  \<open>additional_kwargs\<close> is \<open>None\<close> for an object that has no such attribute
  (\<^verbatim>\<open>hasattr\<close> is false); a dictionary is an association list read with
  \<open>map_of\<close>, its keys being strings. A string is a list of characters.
\<close>

datatype pyval =
    PNone
  | PBool bool
  | PInt int
  | PStr string
  | PList "pyval list"
  | PDict "(string \<times> pyval) list"

datatype error =
    IndexError
  | KeyError
  | TypeError
  | AttributeError
  | GenerationFailed

datatype role = Human | AI | System

record msg =
  role :: role
  content :: string
  additional_kwargs :: "(string \<times> pyval) list option"

text \<open>\<^verbatim>\<open>SystemMessage(content=s)\<close> and \<^verbatim>\<open>HumanMessage(content=s)\<close>: the
  dictionary defaults to the empty one.\<close>

definition SystemMessage :: "string \<Rightarrow> msg" where
  "SystemMessage s = \<lparr>role = System, content = s, additional_kwargs = Some []\<rparr>"

definition HumanMessage :: "string \<Rightarrow> msg" where
  "HumanMessage s = \<lparr>role = Human, content = s, additional_kwargs = Some []\<rparr>"

subsection \<open>Subscripts\<close>

text \<open>\<^verbatim>\<open>v[k]\<close> for a string key \<open>k\<close>: a dictionary looks the key up and raises
  KeyError when it is absent; a list or a string takes no string index, and the other
  values take no subscript at all (TypeError).\<close>

fun getitem :: "pyval \<Rightarrow> string \<Rightarrow> error + pyval" where
  "getitem (PDict d) k = (case map_of d k of None \<Rightarrow> Inl KeyError | Some v \<Rightarrow> Inr v)"
| "getitem (PList xs) k = Inl TypeError"
| "getitem (PStr s) k = Inl TypeError"
| "getitem PNone k = Inl TypeError"
| "getitem (PBool b) k = Inl TypeError"
| "getitem (PInt i) k = Inl TypeError"

text \<open>\<^verbatim>\<open>v[0]\<close>: the first element of a list, the first character of a string
  (IndexError when empty); a dictionary with string keys has no key 0 (KeyError).\<close>

fun getitem0 :: "pyval \<Rightarrow> error + pyval" where
  "getitem0 (PList []) = Inl IndexError"
| "getitem0 (PList (x # xs)) = Inr x"
| "getitem0 (PStr []) = Inl IndexError"
| "getitem0 (PStr (c # cs)) = Inr (PStr [c])"
| "getitem0 (PDict d) = Inl KeyError"
| "getitem0 PNone = Inl TypeError"
| "getitem0 (PBool b) = Inl TypeError"
| "getitem0 (PInt i) = Inl TypeError"

section \<open>Signal detector\<close>

text \<open>
  \<^verbatim>\<open>
  def _is_tool_call(msg):
      return hasattr(msg, "additional_kwargs") and "tool_calls" in msg.additional_kwargs
  \<close>
\<close>

definition is_tool_call :: "msg \<Rightarrow> bool" where
  "is_tool_call m =
     (case additional_kwargs m of
        None \<Rightarrow> False
      | Some kw \<Rightarrow> map_of kw ''tool_calls'' \<noteq> None)"

text \<open>The detector as section 4.2 of the specification words it: the role is
  \<open>assistant\<close> and a structured payload is present.\<close>

definition isModeSwitch :: "msg \<Rightarrow> bool" where
  "isModeSwitch m =
     (role m = AI \<and>
      (case additional_kwargs m of
         None \<Rightarrow> False
       | Some kw \<Rightarrow> map_of kw ''tool_calls'' \<noteq> None))"

section \<open>Router\<close>

text \<open>
  \<^verbatim>\<open>
  def get_state(messages):
      if _is_tool_call(messages[-1]):
          return "prompt"
      elif not isinstance(messages[-1], HumanMessage):
          return END
      for m in messages:
          if _is_tool_call(m):
              return "prompt"
      return "info"
  \<close>
  The graph has the nodes \<^verbatim>\<open>"info"\<close> (gathering) and \<^verbatim>\<open>"prompt"\<close>
  (generating); \<^verbatim>\<open>END\<close> hands control back to the caller. The dictionary
  \<^verbatim>\<open>nodes\<close> of the notebook maps each of the three names to itself.
  \<^verbatim>\<open>messages[-1]\<close> raises IndexError on the empty list.
\<close>

datatype node = Info | Prompt

datatype dest = Goto node | END

fun scan :: "msg list \<Rightarrow> dest" where
  "scan [] = Goto Info"
| "scan (m # ms) = (if is_tool_call m then Goto Prompt else scan ms)"

definition get_state :: "msg list \<Rightarrow> error + dest" where
  "get_state messages =
     (case messages of
        [] \<Rightarrow> Inl IndexError
      | _ # _ \<Rightarrow>
          if is_tool_call (last messages) then Inr (Goto Prompt)
          else if role (last messages) \<noteq> Human then Inr END
          else Inr (scan messages))"

text \<open>The three ordered rules of section 4.3 of the specification, on a non-empty
  sequence of turns.\<close>

definition router_rules :: "msg list \<Rightarrow> dest" where
  "router_rules turns =
     (if is_tool_call (last turns) then Goto Prompt
      else if role (last turns) \<noteq> Human then END
      else if list_ex is_tool_call turns then Goto Prompt
      else Goto Info)"

section \<open>Mode handlers\<close>

abbreviation nl :: char where
  "nl \<equiv> CHR 0x0A"

text \<open>The system instruction of the gathering mode (the notebook's \<^verbatim>\<open>template\<close>).\<close>

definition template :: string where
  "template =
     ''Your job is to get information from a user about what type of prompt template they want to create.''
     @ [nl, nl] @ ''You should get the following information from them:''
     @ [nl, nl] @ ''- What the objective of the prompt is''
     @ [nl] @ ''- What variables will be passed into the prompt template''
     @ [nl] @ ''- Any constraints for what the output should NOT do''
     @ [nl] @ ''- Any requirements that the output MUST adhere to''
     @ [nl, nl] @ ''If you are not able to discerne this info, ask them to clarify! Do not attempt to wildly guess.''
     @ [nl, nl] @ ''After you are able to discerne all the information, call the relevant tool''"

text \<open>
  \<^verbatim>\<open>
  def get_messages_info(messages):
      return [SystemMessage(content=template)] + messages
  \<close>
\<close>

definition get_messages_info :: "msg list \<Rightarrow> msg list" where
  "get_messages_info messages = SystemMessage template # messages"

text \<open>
  \<^verbatim>\<open>str(v)\<close>, which \<^verbatim>\<open>str.format\<close> applies to the value it substitutes: a
  string is itself, \<^verbatim>\<open>None\<close> and the booleans print their names. How Python
  prints a number, a list or a dictionary is not part of the notebook: it is the
  parameter \<open>repr\<close>.
\<close>

fun py_str :: "(pyval \<Rightarrow> string) \<Rightarrow> pyval \<Rightarrow> string" where
  "py_str repr (PStr s) = s"
| "py_str repr PNone = ''None''"
| "py_str repr (PBool b) = (if b then ''True'' else ''False'')"
| "py_str repr (PInt i) = repr (PInt i)"
| "py_str repr (PList xs) = repr (PList xs)"
| "py_str repr (PDict d) = repr (PDict d)"

text \<open>
  \<^verbatim>\<open>
  prompt_system = """Based on the following requirements, write a good prompt template:

  {reqs}"""
  \<close>
  and \<^verbatim>\<open>prompt_system.format(reqs=v)\<close>.
\<close>

definition prompt_system_format :: "(pyval \<Rightarrow> string) \<Rightarrow> pyval \<Rightarrow> string" where
  "prompt_system_format repr reqs =
     ''Based on the following requirements, write a good prompt template:''
     @ [nl, nl] @ py_str repr reqs"

text \<open>\<^verbatim>\<open>m.additional_kwargs["tool_calls"][0]["function"]["arguments"]\<close>, each
  subscript raising as Python does.\<close>

definition tool_call_arguments :: "msg \<Rightarrow> error + pyval" where
  "tool_call_arguments m =
     (case additional_kwargs m of
        None \<Rightarrow> Inl AttributeError
      | Some kw \<Rightarrow>
          (case getitem (PDict kw) ''tool_calls'' of
             Inl e \<Rightarrow> Inl e
           | Inr calls \<Rightarrow>
               (case getitem0 calls of
                  Inl e \<Rightarrow> Inl e
                | Inr call \<Rightarrow>
                    (case getitem call ''function'' of
                       Inl e \<Rightarrow> Inl e
                     | Inr f \<Rightarrow> getitem f ''arguments''))))"

text \<open>
  \<^verbatim>\<open>
  def get_prompt_messages(messages):
      tool_call = None
      other_msgs = []
      for m in messages:
          if _is_tool_call(m):
              tool_call = m.additional_kwargs["tool_calls"][0]["function"]["arguments"]
          elif tool_call is not None:
              other_msgs.append(m)
      return [SystemMessage(content=prompt_system.format(reqs=tool_call))] + other_msgs
  \<close>
  The loop is \<open>prompt_loop\<close>, with the two variables it updates as arguments.
\<close>

fun prompt_loop :: "msg list \<Rightarrow> pyval \<Rightarrow> msg list \<Rightarrow> error + (pyval \<times> msg list)" where
  "prompt_loop [] tool_call other_msgs = Inr (tool_call, other_msgs)"
| "prompt_loop (m # ms) tool_call other_msgs =
     (if is_tool_call m then
        (case tool_call_arguments m of
           Inl e \<Rightarrow> Inl e
         | Inr v \<Rightarrow> prompt_loop ms v other_msgs)
      else if tool_call \<noteq> PNone then prompt_loop ms tool_call (other_msgs @ [m])
      else prompt_loop ms tool_call other_msgs)"

definition get_prompt_messages :: "(pyval \<Rightarrow> string) \<Rightarrow> msg list \<Rightarrow> error + msg list" where
  "get_prompt_messages repr messages =
     (case prompt_loop messages PNone [] of
        Inl e \<Rightarrow> Inl e
      | Inr (tool_call, other_msgs) \<Rightarrow>
          Inr (SystemMessage (prompt_system_format repr tool_call) # other_msgs))"

text \<open>The request of the generating handler as section 4.4 of the specification words
  it: the payload of the first mode-switch turn in the instruction, then the turns
  after that turn.\<close>

definition first_switch_request :: "(pyval \<Rightarrow> string) \<Rightarrow> msg list \<Rightarrow> error + msg list" where
  "first_switch_request repr turns =
     (case dropWhile (\<lambda>m. \<not> is_tool_call m) turns of
        [] \<Rightarrow> Inr [SystemMessage (prompt_system_format repr PNone)]
      | sw # after \<Rightarrow>
          (case tool_call_arguments sw of
             Inl e \<Rightarrow> Inl e
           | Inr v \<Rightarrow> Inr (SystemMessage (prompt_system_format repr v) # after)))"

text \<open>
  The external generator: \<^verbatim>\<open>llm = ChatOpenAI(temperature=0)\<close> and
  \<^verbatim>\<open>llm_with_tool = llm.bind_tools([PromptInstructions])\<close>. A chat model maps a
  request to an assistant's message, of which it chooses the content and the
  \<^verbatim>\<open>additional_kwargs\<close>, or it fails; nothing else is known of the two.
  \<^verbatim>\<open>
  chain = get_messages_info | llm_with_tool
  prompt_gen_chain = get_prompt_messages | llm
  \<close>
\<close>

definition AIMessage :: "string \<Rightarrow> (string \<times> pyval) list \<Rightarrow> msg" where
  "AIMessage s kw = \<lparr>role = AI, content = s, additional_kwargs = Some kw\<rparr>"

type_synonym chat_model = "msg list \<Rightarrow> error + string \<times> (string \<times> pyval) list"

record env =
  llm :: chat_model
  llm_with_tool :: chat_model
  py_repr :: "pyval \<Rightarrow> string"

definition invoke :: "chat_model \<Rightarrow> msg list \<Rightarrow> error + msg" where
  "invoke model request =
     (case model request of
        Inl err \<Rightarrow> Inl err
      | Inr (s, kw) \<Rightarrow> Inr (AIMessage s kw))"

definition chain :: "env \<Rightarrow> msg list \<Rightarrow> error + msg" where
  "chain e messages = invoke (llm_with_tool e) (get_messages_info messages)"

definition prompt_gen_chain :: "env \<Rightarrow> msg list \<Rightarrow> error + msg" where
  "prompt_gen_chain e messages =
     (case get_prompt_messages (py_repr e) messages of
        Inl err \<Rightarrow> Inl err
      | Inr request \<Rightarrow> invoke (llm e) request)"

section \<open>Graph\<close>

text \<open>
  \<^verbatim>\<open>
  nodes = {k: k for k in ["info", "prompt", END]}
  workflow = MessageGraph()
  workflow.add_node("info", chain)
  workflow.add_node("prompt", prompt_gen_chain)
  workflow.add_conditional_edges("info", get_state, nodes)
  workflow.add_conditional_edges("prompt", get_state, nodes)
  workflow.set_entry_point("info")
  \<close>
\<close>

fun runnable :: "env \<Rightarrow> node \<Rightarrow> msg list \<Rightarrow> error + msg" where
  "runnable e Info = chain e"
| "runnable e Prompt = prompt_gen_chain e"

definition entry_point :: node where
  "entry_point = Info"

text \<open>
  Modelled from the spec: the engine that runs the graph (\<^verbatim>\<open>MessageGraph.compile\<close>
  and \<^verbatim>\<open>graph.stream\<close>) is not in the notebook. Its loop is the one of section 4.5
  of the specification: a handler is invoked on the thread, its reply is appended, the
  router is asked for the next mode, and the loop goes on until the router answers
  \<open>END\<close>; a handler that fails aborts the run. Which node runs first and which
  router follows each node is what the notebook wires: the entry point, and
  \<open>get_state\<close> after either node. The loop may not end, so it runs on fuel:
  \<open>Unfinished\<close> is a run that the fuel cut. \<open>invoked\<close> lists the handlers
  called, \<open>outputs\<close> the replies streamed to the caller.
\<close>

datatype ending = Returned | Raised error | Unfinished

record run =
  invoked :: "node list"
  outputs :: "(node \<times> msg) list"
  ended :: ending

fun run_from :: "nat \<Rightarrow> env \<Rightarrow> node \<Rightarrow> msg list \<Rightarrow> run" where
  "run_from 0 e n messages = \<lparr>invoked = [], outputs = [], ended = Unfinished\<rparr>"
| "run_from (Suc fuel) e n messages =
     (case runnable e n messages of
        Inl err \<Rightarrow> \<lparr>invoked = [n], outputs = [], ended = Raised err\<rparr>
      | Inr reply \<Rightarrow>
          (case get_state (messages @ [reply]) of
             Inl err \<Rightarrow> \<lparr>invoked = [n], outputs = [(n, reply)], ended = Raised err\<rparr>
           | Inr END \<Rightarrow> \<lparr>invoked = [n], outputs = [(n, reply)], ended = Returned\<rparr>
           | Inr (Goto n') \<Rightarrow>
               (let r = run_from fuel e n' (messages @ [reply])
                in r\<lparr>invoked := n # invoked r, outputs := (n, reply) # outputs r\<rparr>)))"

text \<open>\<^verbatim>\<open>graph.stream(input, config)\<close> on the thread loaded for the configured
  thread id, and the notebook's call of it with one human message.\<close>

definition stream :: "nat \<Rightarrow> env \<Rightarrow> msg list \<Rightarrow> msg list \<Rightarrow> run" where
  "stream fuel e thread input = run_from fuel e entry_point (thread @ input)"

definition submit :: "nat \<Rightarrow> env \<Rightarrow> msg list \<Rightarrow> string \<Rightarrow> run" where
  "submit fuel e thread user = stream fuel e thread [HumanMessage user]"

text \<open>
  Modelled from the spec: the turn loop of section 4.5 as the specification words it,
  for comparison with the graph as the notebook wires it. The human turn is appended,
  then the router is asked for the next mode against the current thread; on \<open>END\<close>
  the call returns, otherwise the handler of that mode is invoked, its reply is
  appended and the loop goes on.
\<close>

fun orchestrate :: "nat \<Rightarrow> env \<Rightarrow> msg list \<Rightarrow> run" where
  "orchestrate 0 e messages = \<lparr>invoked = [], outputs = [], ended = Unfinished\<rparr>"
| "orchestrate (Suc fuel) e messages =
     (case get_state messages of
        Inl err \<Rightarrow> \<lparr>invoked = [], outputs = [], ended = Raised err\<rparr>
      | Inr END \<Rightarrow> \<lparr>invoked = [], outputs = [], ended = Returned\<rparr>
      | Inr (Goto n) \<Rightarrow>
          (case runnable e n messages of
             Inl err \<Rightarrow> \<lparr>invoked = [n], outputs = [], ended = Raised err\<rparr>
           | Inr reply \<Rightarrow>
               (let r = orchestrate fuel e (messages @ [reply])
                in r\<lparr>invoked := n # invoked r, outputs := (n, reply) # outputs r\<rparr>)))"

definition submit_router_first :: "nat \<Rightarrow> env \<Rightarrow> msg list \<Rightarrow> string \<Rightarrow> run" where
  "submit_router_first fuel e thread user = orchestrate fuel e (thread @ [HumanMessage user])"

section \<open>Example messages and generators\<close>

text \<open>An assistant's message that calls the tool, shaped like the one the notebook's
  recorded run prints: \<^verbatim>\<open>additional_kwargs = {'tool_calls': [{'id': ..., 'function':
  {'arguments': args, 'name': 'PromptInstructions'}, 'type': 'function'}]}\<close>.\<close>

definition tool_call_kwargs :: "string \<Rightarrow> (string \<times> pyval) list" where
  "tool_call_kwargs args =
     [(''tool_calls'',
       PList [PDict [(''id'', PStr ''call_1''),
                     (''function'',
                      PDict [(''arguments'', PStr args), (''name'', PStr ''PromptInstructions'')]),
                     (''type'', PStr ''function'')]])]"

definition tool_call_msg :: "string \<Rightarrow> msg" where
  "tool_call_msg args = AIMessage [] (tool_call_kwargs args)"

text \<open>A stand-in for Python's \<^verbatim>\<open>repr\<close>: the examples substitute strings and
  \<^verbatim>\<open>None\<close> only, which never reach it.\<close>

definition repr0 :: "pyval \<Rightarrow> string" where
  "repr0 v = []"

text \<open>A generator that answers in plain text, with and without the tool.\<close>

definition e_plain :: env where
  "e_plain =
     \<lparr>llm = (\<lambda>request. Inr (''a shorter prompt'', [])),
      llm_with_tool = (\<lambda>request. Inr (''What else?'', [])),
      py_repr = repr0\<rparr>"

text \<open>A generator that calls the tool when it has the tool, and answers in plain text
  when it has not.\<close>

definition e_switch :: env where
  "e_switch =
     \<lparr>llm = (\<lambda>request. Inr (''a prompt'', [])),
      llm_with_tool = (\<lambda>request. Inr ([], tool_call_kwargs ''{}'')),
      py_repr = repr0\<rparr>"

text \<open>A generator that answers every request with a tool call.\<close>

definition e_loop :: env where
  "e_loop =
     \<lparr>llm = (\<lambda>request. Inr ([], tool_call_kwargs ''{}'')),
      llm_with_tool = (\<lambda>request. Inr ([], tool_call_kwargs ''{}'')),
      py_repr = repr0\<rparr>"

section \<open>Properties of the router\<close>

lemma scan_list_ex: "scan ms = (if list_ex is_tool_call ms then Goto Prompt else Goto Info)"
  by (induction ms) simp_all

lemma get_state_nonempty:
  "messages \<noteq> [] \<Longrightarrow>
     get_state messages =
       (if is_tool_call (last messages) then Inr (Goto Prompt)
        else if role (last messages) \<noteq> Human then Inr END
        else Inr (scan messages))"
  by (cases messages) (simp_all add: get_state_def)

lemma is_tool_call_tool_call_msg: "is_tool_call (tool_call_msg args)"
  by (simp add: is_tool_call_def tool_call_msg_def tool_call_kwargs_def AIMessage_def)

lemma not_tool_call_HumanMessage: "\<not> is_tool_call (HumanMessage s)"
  by (simp add: is_tool_call_def HumanMessage_def)

lemma not_tool_call_AIMessage_plain: "\<not> is_tool_call (AIMessage s [])"
  by (simp add: is_tool_call_def AIMessage_def)

lemma role_simps:
  "role (HumanMessage s) = Human" "role (AIMessage s kw) = AI" "role (SystemMessage s) = System"
  by (simp_all add: HumanMessage_def AIMessage_def SystemMessage_def)

text \<open>
  C1. On every non-empty sequence of turns the router returns what the three ordered
  rules give: \<open>prompt\<close> (generating) if the latest turn is a tool call; otherwise
  \<open>END\<close> (awaiting input) if the latest turn is not a human's; otherwise
  \<open>prompt\<close> if any turn of the sequence is a tool call and \<open>info\<close> (gathering)
  if none is. A mode-switch is what the router's own detector, \<open>is_tool_call\<close>,
  accepts.
\<close>

theorem get_state_router_rules:
  "turns \<noteq> [] \<Longrightarrow> get_state turns = Inr (router_rules turns)"
  by (simp add: get_state_nonempty scan_list_ex router_rules_def)

theorem get_state_router_rules_witness:
  "[HumanMessage ''hi!'', tool_call_msg ''{}'', AIMessage ''a prompt'' [], HumanMessage ''shorter''] \<noteq> []
   \<and> get_state [HumanMessage ''hi!'', tool_call_msg ''{}'', AIMessage ''a prompt'' [], HumanMessage ''shorter'']
       = Inr (router_rules [HumanMessage ''hi!'', tool_call_msg ''{}'', AIMessage ''a prompt'' [], HumanMessage ''shorter''])
   \<and> router_rules [HumanMessage ''hi!'', tool_call_msg ''{}'', AIMessage ''a prompt'' [], HumanMessage ''shorter'']
       = Goto Prompt
   \<and> router_rules [HumanMessage ''hi!''] = Goto Info
   \<and> router_rules [HumanMessage ''hi!'', AIMessage ''hello'' []] = END
   \<and> router_rules [HumanMessage ''hi!'', tool_call_msg ''{}''] = Goto Prompt"
  using get_state_router_rules
    [of "[HumanMessage ''hi!'', tool_call_msg ''{}'', AIMessage ''a prompt'' [], HumanMessage ''shorter'']"]
  by (simp add: router_rules_def is_tool_call_tool_call_msg not_tool_call_HumanMessage
      not_tool_call_AIMessage_plain role_simps)

text \<open>
  C2. One-way latch: on a thread that holds a tool-call turn \<open>sw\<close>, whatever turns
  come before and after it, the router evaluated when the latest turn is a human's
  answers \<open>prompt\<close> (generating), never \<open>info\<close> (gathering).
\<close>

theorem get_state_latch:
  assumes "is_tool_call sw" and "role (last (before @ sw # after)) = Human"
  shows "get_state (before @ sw # after) = Inr (Goto Prompt)
         \<and> get_state (before @ sw # after) \<noteq> Inr (Goto Info)"
proof -
  have "list_ex is_tool_call (before @ sw # after)"
    using assms(1) by (simp add: list_ex_iff)
  then have "scan (before @ sw # after) = Goto Prompt"
    by (simp only: scan_list_ex if_True)
  moreover have "before @ sw # after \<noteq> []"
    by simp
  ultimately have "get_state (before @ sw # after) = Inr (Goto Prompt)"
    using assms(2) get_state_nonempty [of "before @ sw # after"] by auto
  then show ?thesis by simp
qed

theorem get_state_latch_witness:
  "is_tool_call (tool_call_msg ''{}'')
   \<and> role (last ([HumanMessage ''hi!''] @ tool_call_msg ''{}'' # [AIMessage ''a prompt'' [], HumanMessage ''shorter''])) = Human
   \<and> get_state ([HumanMessage ''hi!''] @ tool_call_msg ''{}'' # [AIMessage ''a prompt'' [], HumanMessage ''shorter''])
       = Inr (Goto Prompt)"
  using get_state_latch [of "tool_call_msg ''{}''" "[HumanMessage ''hi!'']" "[AIMessage ''a prompt'' [], HumanMessage ''shorter'']"]
  by (simp add: is_tool_call_tool_call_msg role_simps)

text \<open>
  C8. The router returns a mode on every non-empty sequence of turns, and on the empty
  sequence it fails (with Python's IndexError, the empty-thread error) instead of
  returning a mode.
\<close>

theorem get_state_total:
  "get_state [] = Inl IndexError \<and> (turns \<noteq> [] \<longrightarrow> (\<exists>d. get_state turns = Inr d))"
  by (simp add: get_state_nonempty) (simp add: get_state_def)

theorem get_state_total_witness:
  "get_state [] = Inl IndexError \<and> [HumanMessage ''hi!''] \<noteq> []
   \<and> (\<exists>d. get_state [HumanMessage ''hi!''] = Inr d)"
  using get_state_total [of "[HumanMessage ''hi!'']"] by simp

section \<open>Properties of the signal detector\<close>

text \<open>
  C4, as the specification states it, fails: a human's turn whose
  \<open>additional_kwargs\<close> hold the key \<open>tool_calls\<close> is a tool call for the
  detector, which never looks at the role.
\<close>

theorem is_tool_call_human_counterexample:
  "role \<lparr>role = Human, content = ''hi!'', additional_kwargs = Some [(''tool_calls'', PList [])]\<rparr> = Human
   \<and> is_tool_call \<lparr>role = Human, content = ''hi!'', additional_kwargs = Some [(''tool_calls'', PList [])]\<rparr>
   \<and> \<not> isModeSwitch \<lparr>role = Human, content = ''hi!'', additional_kwargs = Some [(''tool_calls'', PList [])]\<rparr>"
  by (simp add: is_tool_call_def isModeSwitch_def)

text \<open>
  C4, amended. The detector returns true if and only if the turn has the dictionary
  \<open>additional_kwargs\<close> and the key \<open>tool_calls\<close> is in it, whatever the role and
  the content of the turn; the predicate of the specification is the detector
  restricted to the assistant's turns.
\<close>

theorem is_tool_call_any_role:
  "is_tool_call m = (\<exists>kw. additional_kwargs m = Some kw \<and> ''tool_calls'' \<in> fst ` set kw)
   \<and> is_tool_call (m\<lparr>role := r, content := c\<rparr>) = is_tool_call m
   \<and> isModeSwitch m = (role m = AI \<and> is_tool_call m)"
  by (auto simp add: is_tool_call_def isModeSwitch_def map_of_eq_None_iff split: option.splits)

section \<open>Properties of the generating handler's message builder\<close>

lemma prompt_loop_no_tool_call:
  "\<forall>m\<in>set ms. \<not> is_tool_call m \<Longrightarrow> prompt_loop ms PNone acc = Inr (PNone, acc)"
  by (induction ms) simp_all

lemma prompt_loop_skip_prefix:
  "\<forall>m\<in>set pre. \<not> is_tool_call m \<Longrightarrow>
     prompt_loop (pre @ rest) PNone acc = prompt_loop rest PNone acc"
  by (induction pre) simp_all

lemma prompt_loop_history:
  "prompt_loop ms tc acc = Inr (tc', acc') \<Longrightarrow> \<forall>m\<in>set acc. \<not> is_tool_call m \<Longrightarrow>
     \<forall>m\<in>set acc'. \<not> is_tool_call m"
proof (induction ms arbitrary: tc acc)
  case Nil
  then show ?case by simp
next
  case (Cons m ms)
  show ?case
  proof (cases "is_tool_call m")
    case True
    with Cons.prems(1) obtain v where "prompt_loop ms v acc = Inr (tc', acc')"
      by (auto split: sum.splits)
    then show ?thesis using Cons.IH Cons.prems(2) by blast
  next
    case False
    show ?thesis
    proof (cases "tc = PNone")
      case True
      with False Cons.prems(1) have "prompt_loop ms tc acc = Inr (tc', acc')" by simp
      then show ?thesis using Cons.IH Cons.prems(2) by blast
    next
      case notNone: False
      with False Cons.prems(1) have "prompt_loop ms tc (acc @ [m]) = Inr (tc', acc')" by simp
      moreover have "\<forall>x\<in>set (acc @ [m]). \<not> is_tool_call x"
        using False Cons.prems(2) by simp
      ultimately show ?thesis using Cons.IH by blast
    qed
  qed
qed

lemma prompt_loop_subset:
  "prompt_loop ms tc acc = Inr (tc', acc') \<Longrightarrow> set acc' \<subseteq> set acc \<union> set ms"
proof (induction ms arbitrary: tc acc)
  case Nil
  then show ?case by simp
next
  case (Cons m ms)
  show ?case
  proof (cases "is_tool_call m")
    case True
    with Cons.prems obtain v where "prompt_loop ms v acc = Inr (tc', acc')"
      by (auto split: sum.splits)
    from Cons.IH [OF this] show ?thesis by auto
  next
    case False
    show ?thesis
    proof (cases "tc = PNone")
      case True
      with False Cons.prems have "prompt_loop ms tc acc = Inr (tc', acc')" by simp
      from Cons.IH [OF this] show ?thesis by auto
    next
      case notNone: False
      with False Cons.prems have "prompt_loop ms tc (acc @ [m]) = Inr (tc', acc')" by simp
      from Cons.IH [OF this] show ?thesis by auto
    qed
  qed
qed

lemma prompt_loop_after:
  assumes "tc \<noteq> PNone"
    and "\<forall>m\<in>set ms. is_tool_call m \<longrightarrow> (\<exists>v. tool_call_arguments m = Inr v \<and> v \<noteq> PNone)"
  shows "\<exists>tc'. prompt_loop ms tc acc = Inr (tc', acc @ filter (\<lambda>m. \<not> is_tool_call m) ms)
           \<and> tc' \<noteq> PNone
           \<and> (if filter is_tool_call ms = [] then tc' = tc
               else tool_call_arguments (last (filter is_tool_call ms)) = Inr tc')"
  using assms
proof (induction ms arbitrary: tc acc)
  case Nil
  then show ?case by simp
next
  case (Cons m ms)
  have rest: "\<forall>x\<in>set ms. is_tool_call x \<longrightarrow> (\<exists>v. tool_call_arguments x = Inr v \<and> v \<noteq> PNone)"
    using Cons.prems(2) by simp
  show ?case
  proof (cases "is_tool_call m")
    case True
    then obtain v where v: "tool_call_arguments m = Inr v" "v \<noteq> PNone"
      using Cons.prems(2) by auto
    from Cons.IH [OF v(2) rest, of acc] obtain tc' where
      tc': "prompt_loop ms v acc = Inr (tc', acc @ filter (\<lambda>m. \<not> is_tool_call m) ms)"
        "tc' \<noteq> PNone"
        "if filter is_tool_call ms = [] then tc' = v
         else tool_call_arguments (last (filter is_tool_call ms)) = Inr tc'"
      by blast
    show ?thesis
      using True v tc' by (auto split: if_splits)
  next
    case False
    from Cons.IH [OF Cons.prems(1) rest, of "acc @ [m]"] obtain tc' where
      tc': "prompt_loop ms tc (acc @ [m]) = Inr (tc', (acc @ [m]) @ filter (\<lambda>m. \<not> is_tool_call m) ms)"
        "tc' \<noteq> PNone"
        "if filter is_tool_call ms = [] then tc' = tc
         else tool_call_arguments (last (filter is_tool_call ms)) = Inr tc'"
      by blast
    show ?thesis
      using False Cons.prems(1) tc' by (auto split: if_splits)
  qed
qed

text \<open>
  C3, as the specification states it, fails on a thread with two tool-call turns: the
  builder substitutes the payload of the last one (\<open>B\<close>, not \<open>A\<close>), and it leaves
  the second tool-call turn out of the history.
\<close>

theorem first_switch_request_counterexample:
  "get_prompt_messages repr0
     [tool_call_msg ''A'', HumanMessage ''x'', tool_call_msg ''B'', HumanMessage ''y'']
     = Inr [SystemMessage (prompt_system_format repr0 (PStr ''B'')), HumanMessage ''x'', HumanMessage ''y'']
   \<and> first_switch_request repr0
     [tool_call_msg ''A'', HumanMessage ''x'', tool_call_msg ''B'', HumanMessage ''y'']
     = Inr [SystemMessage (prompt_system_format repr0 (PStr ''A'')),
            HumanMessage ''x'', tool_call_msg ''B'', HumanMessage ''y'']
   \<and> get_prompt_messages repr0
         [tool_call_msg ''A'', HumanMessage ''x'', tool_call_msg ''B'', HumanMessage ''y'']
       \<noteq> first_switch_request repr0
         [tool_call_msg ''A'', HumanMessage ''x'', tool_call_msg ''B'', HumanMessage ''y'']"
  by (simp add: first_switch_request_def is_tool_call_def tool_call_msg_def tool_call_kwargs_def AIMessage_def HumanMessage_def
      SystemMessage_def tool_call_arguments_def get_prompt_messages_def prompt_system_format_def)

text \<open>
  C3, amended. On a thread that holds at least one tool-call turn, each with a payload
  that can be read (\<^verbatim>\<open>tool_calls[0]["function"]["arguments"]\<close> exists and is not
  \<^verbatim>\<open>None\<close>), the request is the system instruction with the payload of the last
  tool-call turn substituted into it, followed by exactly the turns after the first
  tool-call turn that are not tool calls themselves.
\<close>

theorem get_prompt_messages_last_switch:
  assumes "list_ex is_tool_call turns"
    and "\<forall>m\<in>set turns. is_tool_call m \<longrightarrow> (\<exists>v. tool_call_arguments m = Inr v \<and> v \<noteq> PNone)"
  shows "\<exists>v. tool_call_arguments (last (filter is_tool_call turns)) = Inr v
           \<and> get_prompt_messages rp turns =
               Inr (SystemMessage (prompt_system_format rp v)
                    # filter (\<lambda>m. \<not> is_tool_call m) (tl (dropWhile (\<lambda>m. \<not> is_tool_call m) turns)))"
proof -
  define pre where "pre = takeWhile (\<lambda>m. \<not> is_tool_call m) turns"
  define rest where "rest = dropWhile (\<lambda>m. \<not> is_tool_call m) turns"
  have split: "turns = pre @ rest"
    by (simp add: pre_def rest_def)
  have pre: "\<forall>m\<in>set pre. \<not> is_tool_call m"
    unfolding pre_def by (auto dest: set_takeWhileD)
  have "rest \<noteq> []"
    using assms(1) unfolding rest_def by (auto simp add: list_ex_iff dropWhile_eq_Nil_conv)
  then obtain sw after where rest: "rest = sw # after"
    by (cases rest) auto
  have sw: "is_tool_call sw"
    using hd_dropWhile [of "\<lambda>m. \<not> is_tool_call m" turns] \<open>rest \<noteq> []\<close> rest
    unfolding rest_def by auto
  have "sw \<in> set turns"
    using split rest by simp
  then obtain v0 where v0: "tool_call_arguments sw = Inr v0" "v0 \<noteq> PNone"
    using assms(2) sw by blast
  have wf_after: "\<forall>m\<in>set after. is_tool_call m \<longrightarrow> (\<exists>v. tool_call_arguments m = Inr v \<and> v \<noteq> PNone)"
    using assms(2) split rest by simp
  from prompt_loop_after [OF v0(2) wf_after, of "[]"] obtain v where
    v: "prompt_loop after v0 [] = Inr (v, filter (\<lambda>m. \<not> is_tool_call m) after)"
      "if filter is_tool_call after = [] then v = v0
       else tool_call_arguments (last (filter is_tool_call after)) = Inr v"
    by auto
  have loop: "prompt_loop turns PNone [] = Inr (v, filter (\<lambda>m. \<not> is_tool_call m) after)"
    using prompt_loop_skip_prefix [OF pre, of rest "[]"] split rest sw v0 v(1) by simp
  have filt: "filter is_tool_call turns = sw # filter is_tool_call after"
    using split rest sw pre by (simp add: filter_empty_conv)
  have "tool_call_arguments (last (filter is_tool_call turns)) = Inr v"
    using filt v(2) v0(1) by (auto split: if_splits)
  moreover have "tl (dropWhile (\<lambda>m. \<not> is_tool_call m) turns) = after"
    using rest unfolding rest_def by simp
  ultimately show ?thesis
    using loop by (auto simp add: get_prompt_messages_def)
qed

theorem get_prompt_messages_last_switch_witness:
  "list_ex is_tool_call [tool_call_msg ''A'', HumanMessage ''x'', tool_call_msg ''B'', HumanMessage ''y'']
   \<and> tool_call_arguments (tool_call_msg ''A'') = Inr (PStr ''A'')
   \<and> tool_call_arguments (tool_call_msg ''B'') = Inr (PStr ''B'')
   \<and> \<not> is_tool_call (HumanMessage ''x'') \<and> \<not> is_tool_call (HumanMessage ''y'')
   \<and> get_prompt_messages repr0
        [tool_call_msg ''A'', HumanMessage ''x'', tool_call_msg ''B'', HumanMessage ''y'']
      = Inr [SystemMessage (prompt_system_format repr0 (PStr ''B'')), HumanMessage ''x'', HumanMessage ''y'']"
  using get_prompt_messages_last_switch
    [of "[tool_call_msg ''A'', HumanMessage ''x'', tool_call_msg ''B'', HumanMessage ''y'']" repr0]
  by (simp add: is_tool_call_def tool_call_msg_def tool_call_kwargs_def AIMessage_def HumanMessage_def
      SystemMessage_def tool_call_arguments_def get_prompt_messages_def prompt_system_format_def)

text \<open>
  C9. On a sequence of turns without a tool call the builder does not fail: it returns
  the system instruction alone, the placeholder filled with the text \<open>None\<close>, and
  no turn of the history.
\<close>

theorem get_prompt_messages_no_tool_call:
  assumes "\<forall>m\<in>set messages. \<not> is_tool_call m"
  shows "get_prompt_messages rp messages =
           Inr [SystemMessage
                  (''Based on the following requirements, write a good prompt template:''
                   @ [nl, nl] @ ''None'')]"
  using prompt_loop_no_tool_call [OF assms, of "[]"]
  by (simp add: get_prompt_messages_def prompt_system_format_def)

theorem get_prompt_messages_no_tool_call_witness:
  "\<not> is_tool_call (HumanMessage ''hi!'') \<and> \<not> is_tool_call (AIMessage ''Hello!'' [])
   \<and> get_prompt_messages repr0 [HumanMessage ''hi!'', AIMessage ''Hello!'' []] =
       Inr [SystemMessage
              (''Based on the following requirements, write a good prompt template:''
               @ [nl, nl] @ ''None'')]"
  using get_prompt_messages_no_tool_call [of "[HumanMessage ''hi!'', AIMessage ''Hello!'' []]" repr0]
  by (simp add: is_tool_call_def tool_call_msg_def tool_call_kwargs_def AIMessage_def HumanMessage_def
      SystemMessage_def tool_call_arguments_def get_prompt_messages_def prompt_system_format_def)

text \<open>
  C10. Whenever the builder returns, what follows its system instruction holds no
  tool-call turn (and only turns of the thread): the tool calls after the first one
  are left out as the first one is.
\<close>

theorem get_prompt_messages_history:
  assumes "get_prompt_messages rp messages = Inr request"
  shows "\<exists>instruction history. request = instruction # history
           \<and> role instruction = System
           \<and> (\<forall>m\<in>set history. \<not> is_tool_call m \<and> m \<in> set messages)"
proof -
  from assms obtain tc history where
    loop: "prompt_loop messages PNone [] = Inr (tc, history)"
    and request: "request = SystemMessage (prompt_system_format rp tc) # history"
    by (auto simp add: get_prompt_messages_def split: sum.splits)
  have "\<forall>m\<in>set history. \<not> is_tool_call m"
    using prompt_loop_history [OF loop] by simp
  moreover have "set history \<subseteq> set messages"
    using prompt_loop_subset [OF loop] by simp
  ultimately show ?thesis
    using request by (auto simp add: SystemMessage_def)
qed

theorem get_prompt_messages_history_witness:
  "get_prompt_messages repr0
     [HumanMessage ''hi!'', tool_call_msg ''A'', HumanMessage ''x'', tool_call_msg ''B'', HumanMessage ''y'']
     = Inr [SystemMessage (prompt_system_format repr0 (PStr ''B'')), HumanMessage ''x'', HumanMessage ''y'']
   \<and> role (SystemMessage (prompt_system_format repr0 (PStr ''B''))) = System
   \<and> \<not> is_tool_call (HumanMessage ''x'') \<and> \<not> is_tool_call (HumanMessage ''y'')"
  using get_prompt_messages_history [of repr0
      "[HumanMessage ''hi!'', tool_call_msg ''A'', HumanMessage ''x'', tool_call_msg ''B'', HumanMessage ''y'']"
      "[SystemMessage (prompt_system_format repr0 (PStr ''B'')), HumanMessage ''x'', HumanMessage ''y'']"]
  by (simp add: is_tool_call_def tool_call_msg_def tool_call_kwargs_def AIMessage_def HumanMessage_def
      SystemMessage_def tool_call_arguments_def get_prompt_messages_def prompt_system_format_def)

section \<open>Properties of the graph\<close>

lemma invoke_reply:
  "invoke model request = Inr m \<Longrightarrow>
     \<exists>s kw. model request = Inr (s, kw) \<and> m = AIMessage s kw"
  by (auto simp add: invoke_def split: sum.splits)

lemma chain_reply_role: "chain e messages = Inr m \<Longrightarrow> role m = AI"
  by (auto simp add: chain_def role_simps dest: invoke_reply)

lemma prompt_gen_chain_reply:
  assumes "prompt_gen_chain e messages = Inr m"
  shows "\<exists>request s kw. llm e request = Inr (s, kw) \<and> m = AIMessage s kw"
proof -
  from assms obtain request where "invoke (llm e) request = Inr m"
    by (auto simp add: prompt_gen_chain_def split: sum.splits)
  from invoke_reply [OF this] show ?thesis by blast
qed

lemma get_state_after_reply:
  "role m = AI \<Longrightarrow>
     get_state (messages @ [m]) = Inr (if is_tool_call m then Goto Prompt else END)"
  by (simp add: get_state_nonempty)

text \<open>
  C5. The claim is that the router is asked before any handler runs, so that a human
  input on a thread that already holds a tool-call turn is answered by the generating
  handler. On such a thread the router does answer \<open>prompt\<close>, and the turn loop of
  the specification invokes the generating handler; but the graph does not ask the
  router before the first handler: the entry point is \<open>info\<close>, and the gathering
  handler is the one invoked.
\<close>

theorem entry_point_runs_info_first:
  "get_state ([HumanMessage ''hi!'', tool_call_msg ''{}'', AIMessage ''a prompt'' []] @ [HumanMessage ''shorter''])
     = Inr (Goto Prompt)
   \<and> submit_router_first 3 e_plain [HumanMessage ''hi!'', tool_call_msg ''{}'', AIMessage ''a prompt'' []] ''shorter''
     = \<lparr>invoked = [Prompt], outputs = [(Prompt, AIMessage ''a shorter prompt'' [])],
        ended = Returned\<rparr>
   \<and> submit 3 e_plain [HumanMessage ''hi!'', tool_call_msg ''{}'', AIMessage ''a prompt'' []] ''shorter''
     = \<lparr>invoked = [Info], outputs = [(Info, AIMessage ''What else?'' [])], ended = Returned\<rparr>"
  by (simp add: submit_router_first_def e_plain_def submit_def stream_def entry_point_def chain_def prompt_gen_chain_def invoke_def
      get_messages_info_def get_state_def
      is_tool_call_def tool_call_msg_def tool_call_kwargs_def AIMessage_def HumanMessage_def
      SystemMessage_def tool_call_arguments_def get_prompt_messages_def prompt_system_format_def eval_nat_numeral)

text \<open>
  C6, as the specification states it, fails when the generator without the tool
  answers with a tool call: the router sends each such reply of the generating handler
  back to the generating handler, and a third handler call follows the second.
\<close>

theorem submit_three_handlers_counterexample:
  "invoked (submit 3 e_loop [] ''hi!'') = [Info, Prompt, Prompt]
   \<and> outputs (submit 3 e_loop [] ''hi!'') =
       [(Info, tool_call_msg ''{}''), (Prompt, tool_call_msg ''{}''), (Prompt, tool_call_msg ''{}'')]
   \<and> ended (submit 3 e_loop [] ''hi!'') = Unfinished"
  by (simp add: e_loop_def submit_def stream_def entry_point_def chain_def prompt_gen_chain_def invoke_def
      get_messages_info_def get_state_def
      is_tool_call_def tool_call_msg_def tool_call_kwargs_def AIMessage_def HumanMessage_def
      SystemMessage_def tool_call_arguments_def get_prompt_messages_def prompt_system_format_def eval_nat_numeral)

text \<open>
  C6, amended. Provided the generator called without the tool never answers with a
  tool call, every call of \<open>submit\<close> ends within two handler calls: one when the
  first handler fails or its reply is not a tool call, and two, the gathering handler
  chained into the generating handler, when the gathering handler's reply is a tool
  call; the replies of the handlers that returned are the output.
\<close>

theorem submit_two_handlers:
  assumes "\<forall>request s kw. llm e request = Inr (s, kw) \<longrightarrow> map_of kw ''tool_calls'' = None"
  shows "ended (submit (Suc (Suc fuel)) e thread user) \<noteq> Unfinished
    \<and> length (invoked (submit (Suc (Suc fuel)) e thread user)) \<le> 2
    \<and> (case chain e (thread @ [HumanMessage user]) of
          Inl err \<Rightarrow>
            submit (Suc (Suc fuel)) e thread user =
              \<lparr>invoked = [Info], outputs = [], ended = Raised err\<rparr>
        | Inr m \<Rightarrow>
            if is_tool_call m then
              (case prompt_gen_chain e (thread @ [HumanMessage user, m]) of
                 Inl err \<Rightarrow>
                   submit (Suc (Suc fuel)) e thread user =
                     \<lparr>invoked = [Info, Prompt], outputs = [(Info, m)], ended = Raised err\<rparr>
               | Inr m' \<Rightarrow>
                   submit (Suc (Suc fuel)) e thread user =
                     \<lparr>invoked = [Info, Prompt], outputs = [(Info, m), (Prompt, m')],
                      ended = Returned\<rparr>)
            else
              submit (Suc (Suc fuel)) e thread user =
                \<lparr>invoked = [Info], outputs = [(Info, m)], ended = Returned\<rparr>)"
proof (cases "chain e (thread @ [HumanMessage user])")
  case (Inl err)
  then show ?thesis
    by (simp add: submit_def stream_def entry_point_def)
next
  case (Inr m)
  then have st: "get_state ((thread @ [HumanMessage user]) @ [m])
      = Inr (if is_tool_call m then Goto Prompt else END)"
    using chain_reply_role get_state_after_reply by blast
  show ?thesis
  proof (cases "is_tool_call m")
    case False
    with Inr st show ?thesis
      by (simp add: submit_def stream_def entry_point_def)
  next
    case True
    show ?thesis
    proof (cases "prompt_gen_chain e (thread @ [HumanMessage user, m])")
      case err: (Inl err)
      with Inr st True show ?thesis
        by (simp add: submit_def stream_def entry_point_def)
    next
      case reply: (Inr m')
      then obtain request s kw where m': "llm e request = Inr (s, kw)" "m' = AIMessage s kw"
        using prompt_gen_chain_reply by blast
      then have "\<not> is_tool_call m'"
        using assms by (simp add: is_tool_call_def AIMessage_def)
      moreover have "role m' = AI"
        using m'(2) by (simp add: role_simps)
      ultimately have st': "get_state ((thread @ [HumanMessage user, m]) @ [m']) = Inr END"
        using get_state_after_reply [of m' "thread @ [HumanMessage user, m]"] by simp
      from Inr st True reply st' show ?thesis
        by (simp add: submit_def stream_def entry_point_def)
    qed
  qed
qed

theorem submit_two_handlers_witness:
  "llm e_switch [] = Inr (''a prompt'', [])
   \<and> map_of ([] :: (string \<times> pyval) list) ''tool_calls'' = None
   \<and> submit 2 e_switch [] ''hi!'' =
        \<lparr>invoked = [Info, Prompt],
         outputs = [(Info, tool_call_msg ''{}''), (Prompt, AIMessage ''a prompt'' [])],
         ended = Returned\<rparr>
   \<and> submit 2 e_plain [] ''hi!'' =
        \<lparr>invoked = [Info], outputs = [(Info, AIMessage ''What else?'' [])],
         ended = Returned\<rparr>"
  using submit_two_handlers [of e_switch 0 "[]" "''hi!''"]
  by (simp add: e_switch_def e_plain_def submit_def stream_def entry_point_def chain_def prompt_gen_chain_def invoke_def
      get_messages_info_def get_state_def
      is_tool_call_def tool_call_msg_def tool_call_kwargs_def AIMessage_def HumanMessage_def
      SystemMessage_def tool_call_arguments_def get_prompt_messages_def prompt_system_format_def eval_nat_numeral)

end
